theory Spec2Isabelle
  imports Main "HOL-Library.AList"
begin

section \<open>Python values seen by the Polestar entity base class\<close>

text \<open>
  The entity code of \<^verbatim>\<open>custom_components/polestar_api/entity.py\<close> treats the values
  it reads as opaque: it only asks whether a value is \<^verbatim>\<open>None\<close> and hands it to an optional
  transform. Field values are therefore a small datatype with \<^verbatim>\<open>None\<close> and the scalar
  kinds of the type annotation of \<^verbatim>\<open>data_state_fn\<close>.
\<close>

datatype pyval = PyNone | PyBool bool | PyInt int | PyStr string

text \<open>
  What \<^verbatim>\<open>getattr(self.coordinator, data_source, None)\<close> yields: \<^verbatim>\<open>None\<close>, or an object.
  The code looks at an object in three ways only: its truth value (\<^verbatim>\<open>not data\<close>),
  \<^verbatim>\<open>hasattr(data, a)\<close> and \<^verbatim>\<open>getattr(data, a, None)\<close>. An object is therefore given by
  the result of \<^verbatim>\<open>bool(data)\<close> and by its attribute table.
\<close>

datatype pydata = DataNone | DataObj bool "(string \<times> pyval) list"

datatype exn = ValueError string | PolestarEntityDataSourceException

datatype log_level = DEBUG | ERROR

type_synonym log_record = "log_level \<times> string \<times> string list"

section \<open>The data source enumeration and the entity description\<close>

datatype PolestarEntityDataSource = INFORMATION | ODOMETER | BATTERY | HEALTH

fun source_value :: "PolestarEntityDataSource \<Rightarrow> string" where
  "source_value INFORMATION = ''car_information_data''"
| "source_value ODOMETER = ''car_odometer_data''"
| "source_value BATTERY = ''car_battery_data''"
| "source_value HEALTH = ''car_health_data''"

record PolestarEntityDescription =
  key :: string
  data_source :: "PolestarEntityDataSource option"
  data_state_attribute :: "string option"
  data_state_fn :: "(pyval \<Rightarrow> pyval) option"
  data_extra_state_attributes :: "(string \<times> string) list option"

text \<open>
  Python truth values of the optional fields: \<^verbatim>\<open>None\<close> is false, a \<^verbatim>\<open>StrEnum\<close> member
  and a \<^verbatim>\<open>str\<close> are true when the string is not empty, a \<^verbatim>\<open>dict\<close> is true when it has
  an item.
\<close>

definition bool_source :: "PolestarEntityDataSource option \<Rightarrow> bool" where
  "bool_source s = (case s of None \<Rightarrow> False | Some e \<Rightarrow> source_value e \<noteq> [])"

definition bool_str :: "string option \<Rightarrow> bool" where
  "bool_str s = (case s of None \<Rightarrow> False | Some a \<Rightarrow> a \<noteq> [])"

definition bool_dict :: "('k \<times> 'v) list option \<Rightarrow> bool" where
  "bool_dict m = (case m of None \<Rightarrow> False | Some kvs \<Rightarrow> kvs \<noteq> [])"

text \<open>
  \<^verbatim>\<open>__post_init__\<close>: runs at the end of every construction of the frozen dataclass;
  \<open>Inl\<close> is the raised exception, \<open>Inr ()\<close> the normal return.
\<close>

definition post_init :: "PolestarEntityDescription \<Rightarrow> exn + unit" where
  "post_init d =
     (if bool_source (data_source d) \<noteq> bool_str (data_state_attribute d)
      then Inl (ValueError ''Both data_source and data_attribute must be provided together'')
      else Inr ())"

section \<open>Coordinator, entity and the state they live in\<close>

text \<open>
  The coordinator class is not part of the source file. The entity reads its \<^verbatim>\<open>vin\<close>,
  \<^verbatim>\<open>model\<close> and \<^verbatim>\<open>name\<close>, calls \<^verbatim>\<open>get_short_id()\<close> and looks attributes up by name.
  The field \<open>get_short_id\<close> stands for the string that the call returns and \<open>attrs\<close>
  for the attribute table that \<^verbatim>\<open>getattr\<close> consults.
\<close>

record PolestarCoordinator =
  vin :: string
  model :: pyval
  name :: pyval
  get_short_id :: string
  attrs :: "(string \<times> pydata) list"

record DeviceInfo =
  identifiers :: "(string \<times> string) set"
  manufacturer :: string
  device_model :: pyval
  device_name :: pyval
  serial_number :: string

text \<open>
  The entity's own attributes. \<open>attr_extra_state_attributes\<close> is \<open>None\<close> while the
  instance has no \<^verbatim>\<open>_attr_extra_state_attributes\<close> (\<^verbatim>\<open>hasattr\<close> is false) and
  \<open>Some d\<close> once the dict \<open>d\<close> has been assigned.
\<close>

record PolestarEntity =
  entity_description :: PolestarEntityDescription
  entity_id :: string
  attr_unique_id :: string
  attr_translation_key :: string
  attr_device_info :: DeviceInfo
  attr_extra_state_attributes :: "(string \<times> pyval) list option"

text \<open>
  The state a method call runs in: the externally owned coordinator that
  \<^verbatim>\<open>self.coordinator\<close> refers to, the entity instance, and the records written to
  \<^verbatim>\<open>_LOGGER\<close> so far.
\<close>

record world =
  coordinator :: PolestarCoordinator
  self :: PolestarEntity
  logger :: "log_record list"

definition log :: "log_level \<Rightarrow> string \<Rightarrow> string list \<Rightarrow> world \<Rightarrow> world" where
  "log lvl fmt args w = w\<lparr>logger := logger w @ [(lvl, fmt, args)]\<rparr>"

text \<open>\<^verbatim>\<open>getattr(self.coordinator, data_source, None)\<close>\<close>

definition getattr_coordinator :: "PolestarCoordinator \<Rightarrow> PolestarEntityDataSource \<Rightarrow> pydata" where
  "getattr_coordinator c src =
     (case map_of (attrs c) (source_value src) of None \<Rightarrow> DataNone | Some d \<Rightarrow> d)"

text \<open>\<^verbatim>\<open>hasattr(data, a)\<close> and \<^verbatim>\<open>getattr(data, a, None)\<close> on the attribute table of an object.\<close>

definition hasattr_data :: "(string \<times> pyval) list \<Rightarrow> string \<Rightarrow> bool" where
  "hasattr_data fs a = (map_of fs a \<noteq> None)"

definition getattr_data :: "(string \<times> pyval) list \<Rightarrow> string \<Rightarrow> pyval" where
  "getattr_data fs a = (case map_of fs a of None \<Rightarrow> PyNone | Some v \<Rightarrow> v)"

section \<open>The attribute resolvers\<close>

text \<open>
  The loop of \<^verbatim>\<open>get_extra_state_attributes\<close> over the items of the configured mapping,
  in insertion order. \<open>res\<close> is the dict under construction (\<open>AList.update\<close> is the
  assignment \<^verbatim>\<open>res[key] = ...\<close>), \<open>lg\<close> the log.
\<close>

fun extra_loop ::
  "string \<Rightarrow> string \<Rightarrow> (string \<times> pyval) list \<Rightarrow> (string \<times> string) list \<Rightarrow>
   (string \<times> pyval) list \<times> log_record list \<Rightarrow> (string \<times> pyval) list \<times> log_record list" where
  "extra_loop sv eid fs [] acc = acc"
| "extra_loop sv eid fs ((k, data_attribute) # items) (res, lg) =
     (if \<not> hasattr_data fs data_attribute
      then extra_loop sv eid fs items
             (AList.update k PyNone res,
              lg @ [(ERROR, ''Invalid extra state attribute %s.%s for entity %s'',
                     [sv, data_attribute, eid])])
      else
        (let v = getattr_data fs data_attribute
         in extra_loop sv eid fs items
              (AList.update k v res,
               if v = PyNone
               then lg @ [(DEBUG, ''%s.%s not available for entity %s'',
                           [sv, data_attribute, eid])]
               else lg)))"

definition get_extra_state_attributes :: "world \<Rightarrow> (string \<times> pyval) list option \<times> world" where
  "get_extra_state_attributes w =
     (let d = entity_description (self w) in
      if \<not> (bool_source (data_source d) \<and> bool_dict (data_extra_state_attributes d))
      then (None, w)
      else
        (case (data_source d, data_extra_state_attributes d) of
           (Some src, Some m) \<Rightarrow>
             (case getattr_coordinator (coordinator w) src of
                DataNone \<Rightarrow>
                  (None, log DEBUG ''%s not available for entity %s''
                           [source_value src, entity_id (self w)] w)
              | DataObj t fs \<Rightarrow>
                  (let (res, lg) =
                         extra_loop (source_value src) (entity_id (self w)) fs m ([], logger w)
                   in (Some res, w\<lparr>logger := lg\<rparr>)))
         | _ \<Rightarrow> (None, w)))"

definition get_native_value :: "world \<Rightarrow> (exn + pyval) \<times> world" where
  "get_native_value w =
     (let d = entity_description (self w) in
      if \<not> (bool_source (data_source d) \<and> bool_str (data_state_attribute d))
      then (Inl PolestarEntityDataSourceException, w)
      else
        (case (data_source d, data_state_attribute d) of
           (Some src, Some a) \<Rightarrow>
             (case getattr_coordinator (coordinator w) src of
                DataNone \<Rightarrow>
                  (Inr PyNone, log DEBUG ''%s not available for entity %s''
                                 [source_value src, entity_id (self w)] w)
              | DataObj t fs \<Rightarrow>
                  if \<not> t
                  then (Inr PyNone, log DEBUG ''%s not available for entity %s''
                                      [source_value src, entity_id (self w)] w)
                  else if \<not> hasattr_data fs a
                  then (Inr PyNone, log ERROR ''Invalid state attribute %s.%s for entity %s''
                                      [source_value src, a, entity_id (self w)] w)
                  else
                    (let v = getattr_data fs a
                     in if v = PyNone
                        then (Inr PyNone, log DEBUG ''%s.%s not available for entity %s''
                                            [source_value src, a, entity_id (self w)] w)
                        else
                          (case data_state_fn d of
                             Some f \<Rightarrow> (Inr (f v), w)
                           | None \<Rightarrow> (Inr v, w))))
         | _ \<Rightarrow> (Inl PolestarEntityDataSourceException, w)))"

section \<open>Construction and the update callback\<close>

text \<open>\<^verbatim>\<open>x or {}\<close> for an \<open>x\<close> that is \<^verbatim>\<open>None\<close> or a dict.\<close>

definition or_empty :: "(string \<times> pyval) list option \<Rightarrow> (string \<times> pyval) list" where
  "or_empty r = (case r of None \<Rightarrow> [] | Some m \<Rightarrow> if m = [] then [] else m)"

definition set_extra_state_attributes :: "world \<Rightarrow> world" where
  "set_extra_state_attributes w =
     (let (r, w') = get_extra_state_attributes w
      in w'\<lparr>self := (self w')\<lparr>attr_extra_state_attributes := Some (or_empty r)\<rparr>\<rparr>)"

text \<open>
  \<^verbatim>\<open>__init__\<close>. \<open>DOMAIN\<close> is the constant imported from \<^verbatim>\<open>.const\<close>; \<open>lg\<close> is the log
  before the call. The result is the state right after construction.
\<close>

definition init ::
  "string \<Rightarrow> PolestarCoordinator \<Rightarrow> PolestarEntityDescription \<Rightarrow> log_record list \<Rightarrow> world" where
  "init DOMAIN c d lg =
     (let e = \<lparr>entity_description = d,
               entity_id = DOMAIN @ ''.polestar_'' @ get_short_id c @ ''_'' @ key d,
               attr_unique_id = ''polestar_'' @ vin c @ ''_'' @ key d,
               attr_translation_key = ''polestar_'' @ key d,
               attr_device_info =
                 \<lparr>identifiers = {(DOMAIN, vin c)},
                  manufacturer = ''Polestar'',
                  device_model = model c,
                  device_name = name c,
                  serial_number = vin c\<rparr>,
               attr_extra_state_attributes = None\<rparr>;
          w = \<lparr>coordinator = c, self = e, logger = lg\<rparr>
      in if bool_dict (data_extra_state_attributes d) then set_extra_state_attributes w else w)"

text \<open>
  \<^verbatim>\<open>_handle_coordinator_update\<close>. The call to the base class that follows the
  assignment hands the entity to the host framework and is outside this file.
\<close>

definition handle_coordinator_update :: "world \<Rightarrow> world" where
  "handle_coordinator_update w =
     (if attr_extra_state_attributes (self w) \<noteq> None then set_extra_state_attributes w else w)"

text \<open>
  The host's update cycle: the coordinator is refreshed from outside (each element of the
  list is the coordinator as it is after one refresh), and every refresh is followed by
  the update callback.
\<close>

fun update_cycle :: "world \<Rightarrow> PolestarCoordinator list \<Rightarrow> world" where
  "update_cycle w [] = w"
| "update_cycle w (c # cs) = update_cycle (handle_coordinator_update (w\<lparr>coordinator := c\<rparr>)) cs"

section \<open>Example states\<close>

text \<open>
  A battery sensor with a transform and two extra attributes, and a coordinator whose
  battery object has the truth value \<open>t\<close>, a charge level and a charging status, and no
  estimated range.
\<close>

definition double_int :: "pyval \<Rightarrow> pyval" where
  "double_int v = (case v of PyInt n \<Rightarrow> PyInt (2 * n) | _ \<Rightarrow> v)"

definition battery_description :: PolestarEntityDescription where
  "battery_description =
     \<lparr>key = ''soc'', data_source = Some BATTERY, data_state_attribute = Some ''level'',
      data_state_fn = Some double_int,
      data_extra_state_attributes = Some [(''status'', ''charging_status''), (''range'', ''estimated_range'')]\<rparr>"

definition battery_fields :: "(string \<times> pyval) list" where
  "battery_fields = [(''level'', PyInt 40), (''charging_status'', PyStr ''idle'')]"

definition battery_coordinator :: "bool \<Rightarrow> PolestarCoordinator" where
  "battery_coordinator t =
     \<lparr>vin = ''YSMYKEAE'', model = PyStr ''Polestar 2'', name = PyStr ''Polestar 2'',
      get_short_id = ''keae'',
      attrs = [(''car_battery_data'', DataObj t battery_fields)]\<rparr>"

definition battery_world :: "bool \<Rightarrow> world" where
  "battery_world t = init ''polestar_api'' (battery_coordinator t) battery_description []"

text \<open>A description without data source and attribute name.\<close>

definition bare_description :: PolestarEntityDescription where
  "bare_description =
     \<lparr>key = ''bare'', data_source = None, data_state_attribute = None,
      data_state_fn = None, data_extra_state_attributes = None\<rparr>"

definition bare_world :: world where
  "bare_world = init ''polestar_api'' (battery_coordinator True) bare_description []"

text \<open>The battery sensor configured with an empty mapping of extra attributes.\<close>

definition empty_extras_description :: PolestarEntityDescription where
  "empty_extras_description = battery_description\<lparr>data_extra_state_attributes := Some []\<rparr>"

definition empty_extras_world :: world where
  "empty_extras_world =
     init ''polestar_api'' (battery_coordinator True) empty_extras_description []"

text \<open>
  A second state of the battery sensor: same coordinator and description as
  \<open>battery_world True\<close>, another entity id, no extra state attributes assigned and a
  log that already has a record.
\<close>

definition other_battery_world :: world where
  "other_battery_world =
     (battery_world True)
       \<lparr>self := (self (battery_world True))
                  \<lparr>entity_id := ''sensor.other'', attr_extra_state_attributes := None\<rparr>,
        logger := [(DEBUG, ''earlier record'', [])]\<rparr>"

section \<open>Basic facts\<close>

lemma bool_source_Some: "bool_source (Some src)"
  by (cases src) (simp_all add: bool_source_def)

lemma bool_sourceD: "bool_source s \<Longrightarrow> \<exists>src. s = Some src"
  by (cases s) (simp_all add: bool_source_def)

lemma bool_strD: "bool_str s \<Longrightarrow> \<exists>a. s = Some a \<and> a \<noteq> []"
  by (cases s) (simp_all add: bool_str_def)

lemma bool_dictD: "bool_dict m \<Longrightarrow> \<exists>kvs. m = Some kvs \<and> kvs \<noteq> []"
  by (cases m) (simp_all add: bool_dict_def)

lemma getattr_data_absent: "\<not> hasattr_data fs a \<Longrightarrow> getattr_data fs a = PyNone"
  by (simp add: hasattr_data_def getattr_data_def)

lemma getattr_data_present: "getattr_data fs a \<noteq> PyNone \<Longrightarrow> hasattr_data fs a"
  by (auto simp: hasattr_data_def getattr_data_def split: option.splits)

subsection \<open>The methods write to the log only\<close>

lemma native_self: "self (snd (get_native_value w)) = self w"
  by (simp add: get_native_value_def Let_def log_def split: option.splits pydata.splits)

lemma native_coordinator: "coordinator (snd (get_native_value w)) = coordinator w"
  by (simp add: get_native_value_def Let_def log_def split: option.splits pydata.splits)

lemma extra_self: "self (snd (get_extra_state_attributes w)) = self w"
  by (simp add: get_extra_state_attributes_def Let_def log_def
           split: option.splits pydata.splits prod.splits)

lemma extra_coordinator: "coordinator (snd (get_extra_state_attributes w)) = coordinator w"
  by (simp add: get_extra_state_attributes_def Let_def log_def
           split: option.splits pydata.splits prod.splits)

subsection \<open>The loop over the configured mapping\<close>

lemma extra_loop_res_cong:
  "fst (extra_loop sv eid fs m (res, lg)) = fst (extra_loop sv' eid' fs m (res, lg'))"
  by (induction m arbitrary: res lg lg') (auto simp: Let_def)

lemma extra_loop_keys:
  "fst ` set (fst (extra_loop sv eid fs m (res, lg))) = fst ` set res \<union> fst ` set m"
proof (induction m arbitrary: res lg)
  case Nil
  then show ?case by simp
next
  case (Cons p m)
  obtain k a where p: "p = (k, a)" by (cases p)
  show ?case
    unfolding p by (simp add: Cons.IH dom_update Un_assoc Let_def)
qed

lemma extra_loop_other:
  "k \<notin> fst ` set m \<Longrightarrow> map_of (fst (extra_loop sv eid fs m (res, lg))) k = map_of res k"
  by (induction m arbitrary: res lg) (auto simp: update_conv' Let_def)

lemma extra_loop_value:
  "distinct (map fst m) \<Longrightarrow> (k, a) \<in> set m \<Longrightarrow>
   map_of (fst (extra_loop sv eid fs m (res, lg))) k = Some (getattr_data fs a)"
proof (induction m arbitrary: res lg)
  case Nil
  then show ?case by simp
next
  case (Cons p m)
  obtain k' a' where p: "p = (k', a')" by (cases p)
  show ?case
  proof (cases "(k, a) = p")
    case True
    with Cons.prems p have "k \<notin> fst ` set m" by auto
    with True p show ?thesis
      by (auto simp: extra_loop_other update_conv' Let_def getattr_data_absent)
  next
    case False
    with Cons.prems have "(k, a) \<in> set m" "distinct (map fst m)" by auto
    with Cons.IH p show ?thesis by (auto simp: Let_def)
  qed
qed

lemma extra_loop_res_eq:
  "extra_loop sv eid fs m (res, lg) = (r, l) \<Longrightarrow>
   extra_loop sv' eid' fs m (res, lg') = (r', l') \<Longrightarrow> r = r'"
  by (metis extra_loop_res_cong fst_conv)

lemma extra_result_cong:
  "coordinator w' = coordinator w \<Longrightarrow> entity_description (self w') = entity_description (self w) \<Longrightarrow>
   fst (get_extra_state_attributes w') = fst (get_extra_state_attributes w)"
  by (auto simp: get_extra_state_attributes_def Let_def
           split: option.splits pydata.splits prod.splits dest: extra_loop_res_eq)

subsection \<open>Assignment of the extra state attributes\<close>

lemma set_extra_coordinator: "coordinator (set_extra_state_attributes w) = coordinator w"
  using extra_coordinator [of w]
  by (cases "get_extra_state_attributes w") (simp add: set_extra_state_attributes_def)

lemma set_extra_self:
  "self (set_extra_state_attributes w) =
     (self w)\<lparr>attr_extra_state_attributes := Some (or_empty (fst (get_extra_state_attributes w)))\<rparr>"
  using extra_self [of w]
  by (cases "get_extra_state_attributes w") (simp add: set_extra_state_attributes_def)

lemma set_extra_established:
  "attr_extra_state_attributes (self (set_extra_state_attributes w)) =
     Some (or_empty (fst (get_extra_state_attributes (set_extra_state_attributes w))))"
proof -
  have "fst (get_extra_state_attributes (set_extra_state_attributes w)) =
        fst (get_extra_state_attributes w)"
    by (rule extra_result_cong) (simp_all add: set_extra_coordinator set_extra_self)
  then show ?thesis by (simp add: set_extra_self)
qed

lemma init_coordinator: "coordinator (init DOMAIN c d lg) = c"
  by (simp add: init_def Let_def set_extra_coordinator)

lemma init_description: "entity_description (self (init DOMAIN c d lg)) = d"
  by (simp add: init_def Let_def set_extra_self)

lemma handle_description:
  "entity_description (self (handle_coordinator_update w)) = entity_description (self w)"
  by (simp add: handle_coordinator_update_def set_extra_self)

lemma handle_ids:
  "entity_id (self (handle_coordinator_update w)) = entity_id (self w) \<and>
   attr_unique_id (self (handle_coordinator_update w)) = attr_unique_id (self w) \<and>
   attr_translation_key (self (handle_coordinator_update w)) = attr_translation_key (self w)"
  by (simp add: handle_coordinator_update_def set_extra_self)

lemma update_cycle_ids:
  "entity_id (self (update_cycle w cs)) = entity_id (self w) \<and>
   attr_unique_id (self (update_cycle w cs)) = attr_unique_id (self w) \<and>
   attr_translation_key (self (update_cycle w cs)) = attr_translation_key (self w)"
  by (induction cs arbitrary: w) (simp_all add: handle_ids)

lemma update_cycle_established:
  "attr_extra_state_attributes (self w) = Some (or_empty (fst (get_extra_state_attributes w))) \<Longrightarrow>
   attr_extra_state_attributes (self (update_cycle w cs)) =
     Some (or_empty (fst (get_extra_state_attributes (update_cycle w cs))))"
proof (induction cs arbitrary: w)
  case Nil
  then show ?case by simp
next
  case (Cons c cs)
  let ?w = "handle_coordinator_update (w\<lparr>coordinator := c\<rparr>)"
  from Cons.prems have "?w = set_extra_state_attributes (w\<lparr>coordinator := c\<rparr>)"
    by (simp add: handle_coordinator_update_def)
  then have "attr_extra_state_attributes (self ?w) =
             Some (or_empty (fst (get_extra_state_attributes ?w)))"
    by (simp add: set_extra_established)
  from Cons.IH [OF this] show ?case by simp
qed

subsection \<open>The example states\<close>

lemma battery_world_coordinator: "coordinator (battery_world t) = battery_coordinator t"
  by (simp add: battery_world_def init_coordinator)

lemma battery_world_description: "entity_description (self (battery_world t)) = battery_description"
  by (simp add: battery_world_def init_description)

lemma bare_world_description: "entity_description (self bare_world) = bare_description"
  by (simp add: bare_world_def init_description)

lemma battery_getattr:
  "getattr_coordinator (battery_coordinator t) BATTERY = DataObj t battery_fields"
  by (simp add: getattr_coordinator_def battery_coordinator_def)

lemma battery_fields_level:
  "hasattr_data battery_fields ''level''" "getattr_data battery_fields ''level'' = PyInt 40"
  by (simp_all add: hasattr_data_def getattr_data_def battery_fields_def)

lemma battery_description_fields:
  "data_source battery_description = Some BATTERY"
  "data_state_attribute battery_description = Some ''level''"
  "data_state_fn battery_description = Some double_int"
  "data_extra_state_attributes battery_description =
     Some [(''status'', ''charging_status''), (''range'', ''estimated_range'')]"
  by (simp_all add: battery_description_def)

lemma battery_world_native:
  "fst (get_native_value (battery_world t)) = (if t then Inr (PyInt 80) else Inr PyNone)"
  by (simp add: get_native_value_def battery_world_coordinator battery_world_description
        battery_getattr battery_fields_level battery_description_fields Let_def
        bool_source_Some bool_str_def double_int_def)

lemma extra_proceeds:
  assumes "entity_description (self w) = d"
    and "data_source d = Some src" and "data_extra_state_attributes d = Some m" and "m \<noteq> []"
    and "getattr_coordinator (coordinator w) src = DataObj t fs"
  shows "fst (get_extra_state_attributes w) =
           Some (fst (extra_loop (source_value src) (entity_id (self w)) fs m ([], logger w)))"
  using assms
  by (simp add: get_extra_state_attributes_def Let_def bool_source_Some bool_dict_def
           split: prod.splits)

lemma battery_loop:
  "fst (extra_loop sv eid battery_fields
          [(''status'', ''charging_status''), (''range'', ''estimated_range'')] ([], lg)) =
     [(''status'', PyStr ''idle''), (''range'', PyNone)]"
  by (simp add: battery_fields_def hasattr_data_def getattr_data_def Let_def)

lemma battery_world_extra:
  "fst (get_extra_state_attributes (battery_world t)) =
     Some [(''status'', PyStr ''idle''), (''range'', PyNone)]"
proof -
  have "fst (get_extra_state_attributes (battery_world t)) =
          Some (fst (extra_loop (source_value BATTERY) (entity_id (self (battery_world t)))
                  battery_fields
                  [(''status'', ''charging_status''), (''range'', ''estimated_range'')]
                  ([], logger (battery_world t))))"
    by (rule extra_proceeds [where d = battery_description and t = t])
       (simp_all add: battery_world_coordinator battery_world_description battery_getattr
          battery_description_fields)
  then show ?thesis by (simp only: battery_loop)
qed

lemma handle_coordinator: "coordinator (handle_coordinator_update w) = coordinator w"
  by (simp add: handle_coordinator_update_def set_extra_coordinator)

lemma extra_unavailable:
  assumes "entity_description (self w) = d" and "data_source d = Some src"
    and "getattr_coordinator (coordinator w) src = DataNone"
  shows "fst (get_extra_state_attributes w) = None"
  using assms
  by (simp add: get_extra_state_attributes_def Let_def split: option.splits)

lemma battery_result_cong:
  assumes "coordinator w = battery_coordinator t"
    and "entity_description (self w) = battery_description"
  shows "fst (get_extra_state_attributes w) =
           Some [(''status'', PyStr ''idle''), (''range'', PyNone)]"
proof -
  have "fst (get_extra_state_attributes w) = fst (get_extra_state_attributes (battery_world t))"
    by (rule extra_result_cong)
       (simp_all add: assms battery_world_coordinator battery_world_description)
  then show ?thesis by (simp only: battery_world_extra)
qed

subsection \<open>An entity without extra state attributes\<close>

lemma init_unset:
  "\<not> bool_dict (data_extra_state_attributes d) \<Longrightarrow>
   attr_extra_state_attributes (self (init DOMAIN c d lg)) = None"
  by (simp add: init_def Let_def)

lemma update_cycle_unset:
  "attr_extra_state_attributes (self w) = None \<Longrightarrow>
   attr_extra_state_attributes (self (update_cycle w cs)) = None"
  by (induction cs arbitrary: w) (simp_all add: handle_coordinator_update_def)

lemma empty_extras_fields:
  "data_source empty_extras_description = Some BATTERY"
  "data_state_attribute empty_extras_description = Some ''level''"
  "data_extra_state_attributes empty_extras_description = Some []"
  by (simp_all add: empty_extras_description_def battery_description_def)

lemma empty_extras_world_description:
  "entity_description (self empty_extras_world) = empty_extras_description"
  by (simp add: empty_extras_world_def init_description)

lemma empty_extras_world_coordinator:
  "coordinator empty_extras_world = battery_coordinator True"
  by (simp add: empty_extras_world_def init_coordinator)

lemma empty_extras_post_init: "post_init empty_extras_description = Inr ()"
  by (simp add: post_init_def empty_extras_fields bool_source_Some bool_str_def)

lemma empty_extras_result: "fst (get_extra_state_attributes empty_extras_world) = None"
  by (simp add: get_extra_state_attributes_def Let_def empty_extras_world_description
        empty_extras_fields bool_dict_def)

section \<open>Validation of the description\<close>

text \<open>
  C1. A description whose construction succeeds has a truthy \<^verbatim>\<open>data_source\<close> exactly
  when its \<^verbatim>\<open>data_state_attribute\<close> is truthy, and a construction in which exactly one
  of the two is truthy raises \<^verbatim>\<open>ValueError\<close>.
\<close>

theorem post_init_together:
  "(post_init d = Inr () \<longrightarrow>
      (bool_source (data_source d) \<longleftrightarrow> bool_str (data_state_attribute d))) \<and>
   (bool_source (data_source d) \<noteq> bool_str (data_state_attribute d) \<longrightarrow>
      (\<exists>msg. post_init d = Inl (ValueError msg)))"
  by (simp add: post_init_def)

theorem post_init_together_witness:
  "post_init \<lparr>key = ''soc'', data_source = Some BATTERY,
              data_state_attribute = Some ''battery_charge_level_percentage'',
              data_state_fn = None, data_extra_state_attributes = None\<rparr> = Inr () \<and>
   bool_source (Some BATTERY) \<and> bool_str (Some ''battery_charge_level_percentage'') \<and>
   bool_source (Some BATTERY) \<noteq> bool_str None \<and>
   (\<exists>msg. post_init \<lparr>key = ''soc'', data_source = Some BATTERY,
              data_state_attribute = None,
              data_state_fn = None, data_extra_state_attributes = None\<rparr> = Inl (ValueError msg))"
  using post_init_together [of "\<lparr>key = ''soc'', data_source = Some BATTERY,
              data_state_attribute = Some ''battery_charge_level_percentage'',
              data_state_fn = None, data_extra_state_attributes = None\<rparr>"]
        post_init_together [of "\<lparr>key = ''soc'', data_source = Some BATTERY,
              data_state_attribute = None,
              data_state_fn = None, data_extra_state_attributes = None\<rparr>"]
  by (simp add: post_init_def bool_source_def bool_str_def)

section \<open>The misconfigured description\<close>

text \<open>
  C2. For a description that was constructed successfully, \<^verbatim>\<open>get_native_value\<close> raises
  \<^verbatim>\<open>PolestarEntityDataSourceException\<close> exactly when the description lacks both the data
  source and the attribute name (both are falsy), and with a description that has both
  the call does not raise that exception.
\<close>

theorem get_native_value_raises:
  assumes "post_init (entity_description (self w)) = Inr ()"
  shows "(fst (get_native_value w) = Inl PolestarEntityDataSourceException \<longleftrightarrow>
            \<not> bool_source (data_source (entity_description (self w))) \<and>
            \<not> bool_str (data_state_attribute (entity_description (self w)))) \<and>
         (bool_source (data_source (entity_description (self w))) \<and>
          bool_str (data_state_attribute (entity_description (self w))) \<longrightarrow>
            fst (get_native_value w) \<noteq> Inl PolestarEntityDataSourceException)"
  using assms
  by (auto simp: get_native_value_def post_init_def Let_def
           split: option.splits pydata.splits if_splits dest: bool_sourceD bool_strD)

theorem get_native_value_raises_witness:
  "post_init bare_description = Inr () \<and>
   \<not> bool_source (data_source bare_description) \<and>
   \<not> bool_str (data_state_attribute bare_description) \<and>
   fst (get_native_value bare_world) = Inl PolestarEntityDataSourceException \<and>
   post_init battery_description = Inr () \<and>
   bool_source (data_source battery_description) \<and>
   bool_str (data_state_attribute battery_description) \<and>
   fst (get_native_value (battery_world True)) \<noteq> Inl PolestarEntityDataSourceException"
  using get_native_value_raises [of bare_world]
        get_native_value_raises [of "battery_world True"]
  by (simp add: bare_world_description battery_world_description post_init_def
        bare_description_def battery_description_fields bool_source_def bool_str_def)

section \<open>Unavailable data\<close>

text \<open>
  C3. With a description that has both data source and attribute name,
  \<^verbatim>\<open>get_native_value\<close> returns \<^verbatim>\<open>None\<close> when the coordinator has no attribute of the
  source's name, when that attribute is \<^verbatim>\<open>None\<close>, when the object lacks the named
  field, and when the field's value is \<^verbatim>\<open>None\<close>.
\<close>

theorem get_native_value_unavailable:
  assumes "entity_description (self w) = d"
    and "bool_source (data_source d)" and "bool_str (data_state_attribute d)"
    and "data_source d = Some src" and "data_state_attribute d = Some a"
    and "map_of (attrs (coordinator w)) (source_value src) = None \<or>
         map_of (attrs (coordinator w)) (source_value src) = Some DataNone \<or>
         (\<exists>t fs. map_of (attrs (coordinator w)) (source_value src) = Some (DataObj t fs) \<and>
                 (\<not> hasattr_data fs a \<or> getattr_data fs a = PyNone))"
  shows "fst (get_native_value w) = Inr PyNone"
  using assms
  by (auto simp: get_native_value_def getattr_coordinator_def Let_def)

theorem get_native_value_unavailable_witness:
  "entity_description (self (battery_world True)) = battery_description \<and>
   bool_source (data_source battery_description) \<and>
   bool_str (data_state_attribute battery_description) \<and>
   map_of (attrs (coordinator ((battery_world True)\<lparr>coordinator := (battery_coordinator True)\<lparr>attrs := []\<rparr>\<rparr>)))
     (source_value BATTERY) = None \<and>
   fst (get_native_value ((battery_world True)\<lparr>coordinator := (battery_coordinator True)\<lparr>attrs := []\<rparr>\<rparr>))
     = Inr PyNone"
  using get_native_value_unavailable
    [of "(battery_world True)\<lparr>coordinator := (battery_coordinator True)\<lparr>attrs := []\<rparr>\<rparr>"
        battery_description BATTERY "''level''"]
  by (simp add: battery_world_description battery_description_fields bool_source_def
        bool_str_def)

section \<open>The value of an available field\<close>

text \<open>
  C4, as the code has it. With a description that has both data source and attribute
  name, when the coordinator's named sub-object is truthy and the named field on it has a
  value \<open>v\<close> other than \<^verbatim>\<open>None\<close>, \<^verbatim>\<open>get_native_value\<close> returns \<^verbatim>\<open>data_state_fn(v)\<close> if a
  transform is configured and \<open>v\<close> itself otherwise.
\<close>

theorem get_native_value_available:
  assumes "entity_description (self w) = d"
    and "bool_source (data_source d)" and "bool_str (data_state_attribute d)"
    and "data_source d = Some src" and "data_state_attribute d = Some a"
    and "getattr_coordinator (coordinator w) src = DataObj True fs"
    and "getattr_data fs a = v" and "v \<noteq> PyNone"
  shows "fst (get_native_value w) =
           Inr (case data_state_fn d of Some f \<Rightarrow> f v | None \<Rightarrow> v)"
  using assms getattr_data_present [of fs a]
  by (auto simp: get_native_value_def Let_def split: option.splits)

theorem get_native_value_available_witness:
  "entity_description (self (battery_world True)) = battery_description \<and>
   bool_source (data_source battery_description) \<and>
   bool_str (data_state_attribute battery_description) \<and>
   data_source battery_description = Some BATTERY \<and>
   data_state_attribute battery_description = Some ''level'' \<and>
   getattr_coordinator (coordinator (battery_world True)) BATTERY = DataObj True battery_fields \<and>
   getattr_data battery_fields ''level'' = PyInt 40 \<and> PyInt 40 \<noteq> PyNone \<and>
   fst (get_native_value (battery_world True)) = Inr (PyInt 80)"
  using get_native_value_available
    [of "battery_world True" battery_description BATTERY "''level''" battery_fields "PyInt 40"]
  by (simp add: battery_world_description battery_world_coordinator battery_getattr
        battery_fields_level battery_description_fields bool_source_Some bool_str_def
        double_int_def)

text \<open>
  The claim with a sub-object that is merely present (not \<^verbatim>\<open>None\<close>) fails: the battery
  object below is present, evaluates false and has the field \<^verbatim>\<open>level\<close> with the value
  40, the transform is configured, and the call returns \<^verbatim>\<open>None\<close>, not the
  transformed value.
\<close>

theorem get_native_value_present_counterexample:
  "bool_source (data_source (entity_description (self (battery_world False)))) \<and>
   bool_str (data_state_attribute (entity_description (self (battery_world False)))) \<and>
   data_source (entity_description (self (battery_world False))) = Some BATTERY \<and>
   data_state_attribute (entity_description (self (battery_world False))) = Some ''level'' \<and>
   data_state_fn (entity_description (self (battery_world False))) = Some double_int \<and>
   getattr_coordinator (coordinator (battery_world False)) BATTERY = DataObj False battery_fields \<and>
   hasattr_data battery_fields ''level'' \<and>
   getattr_data battery_fields ''level'' = PyInt 40 \<and> PyInt 40 \<noteq> PyNone \<and>
   fst (get_native_value (battery_world False)) = Inr PyNone \<and>
   fst (get_native_value (battery_world False)) \<noteq> Inr (double_int (PyInt 40))"
  by (simp add: battery_world_description battery_world_coordinator battery_getattr
        battery_fields_level battery_world_native battery_description_fields
        bool_source_Some bool_str_def double_int_def)

section \<open>Frame and determinism\<close>

text \<open>
  C5. \<^verbatim>\<open>get_native_value\<close> and \<^verbatim>\<open>get_extra_state_attributes\<close> leave the coordinator and
  the entity as they were; only the log may differ after the call.
\<close>

theorem getters_frame:
  "coordinator (snd (get_native_value w)) = coordinator w \<and>
   self (snd (get_native_value w)) = self w \<and>
   coordinator (snd (get_extra_state_attributes w)) = coordinator w \<and>
   self (snd (get_extra_state_attributes w)) = self w"
  by (simp add: native_coordinator native_self extra_coordinator extra_self)

text \<open>
  C8. \<^verbatim>\<open>get_native_value\<close> is deterministic: in any two states with the same
  description and the same coordinator the call returns the same result, whatever the
  rest of the entity and the log are; in particular a second call, made in the state the
  first call left, returns what the first returned.
\<close>

theorem get_native_value_deterministic:
  assumes "coordinator w' = coordinator w"
    and "entity_description (self w') = entity_description (self w)"
  shows "fst (get_native_value w') = fst (get_native_value w) \<and>
         fst (get_native_value (snd (get_native_value w))) = fst (get_native_value w)"
proof -
  have same: "fst (get_native_value u) = fst (get_native_value v)"
    if "coordinator u = coordinator v"
      and "entity_description (self u) = entity_description (self v)" for u v
    using that
    by (simp add: get_native_value_def Let_def split: option.splits pydata.splits)
  have "fst (get_native_value (snd (get_native_value w))) = fst (get_native_value w)"
    by (rule same) (simp_all add: native_coordinator native_self)
  with same [OF assms] show ?thesis by simp
qed

theorem get_native_value_deterministic_witness:
  "coordinator other_battery_world = coordinator (battery_world True) \<and>
   entity_description (self other_battery_world) =
     entity_description (self (battery_world True)) \<and>
   self other_battery_world \<noteq> self (battery_world True) \<and>
   logger other_battery_world \<noteq> logger (battery_world True) \<and>
   fst (get_native_value other_battery_world) = Inr (PyInt 80) \<and>
   fst (get_native_value (battery_world True)) = Inr (PyInt 80)"
proof -
  have c: "coordinator other_battery_world = coordinator (battery_world True)"
    and d: "entity_description (self other_battery_world) =
            entity_description (self (battery_world True))"
    by (simp_all add: other_battery_world_def)
  have e: "entity_id (self (battery_world True)) = ''polestar_api.polestar_keae_soc''"
    by (simp add: battery_world_def init_def Let_def set_extra_self)
       (simp add: battery_coordinator_def battery_description_def)
  have s: "self other_battery_world \<noteq> self (battery_world True)"
  proof
    assume "self other_battery_world = self (battery_world True)"
    then have "entity_id (self other_battery_world) = entity_id (self (battery_world True))"
      by simp
    with e show False by (simp add: other_battery_world_def)
  qed
  have l0: "logger (battery_world True) =
      [(ERROR, ''Invalid extra state attribute %s.%s for entity %s'',
        [''car_battery_data'', ''estimated_range'', ''polestar_api.polestar_keae_soc''])]"
    by (simp add: battery_world_def init_def Let_def set_extra_state_attributes_def
          get_extra_state_attributes_def bool_source_Some bool_dict_def
          battery_description_def battery_coordinator_def getattr_coordinator_def
          battery_fields_def hasattr_data_def getattr_data_def split: prod.splits)
  have l: "logger other_battery_world \<noteq> logger (battery_world True)"
    by (simp add: l0) (simp add: other_battery_world_def)
  from get_native_value_deterministic [OF c d] c d s l show ?thesis
    by (simp add: battery_world_native)
qed

section \<open>The extra state attributes\<close>

text \<open>
  C6, as the code has it. For a description that configures a non-empty
  \<^verbatim>\<open>data_extra_state_attributes\<close> mapping, after
  construction and after every update callback of the host's update cycle,
  \<^verbatim>\<open>_attr_extra_state_attributes\<close> is set to a dict: the result of
  \<^verbatim>\<open>get_extra_state_attributes\<close> in that state, and the empty dict when that result is
  \<^verbatim>\<open>None\<close>.
\<close>

theorem extra_state_attributes_maintained:
  assumes "bool_dict (data_extra_state_attributes d)"
  shows "attr_extra_state_attributes (self (update_cycle (init DOMAIN c d lg) cs)) =
           Some (or_empty (fst (get_extra_state_attributes (update_cycle (init DOMAIN c d lg) cs)))) \<and>
         (fst (get_extra_state_attributes (update_cycle (init DOMAIN c d lg) cs)) = None \<longrightarrow>
            attr_extra_state_attributes (self (update_cycle (init DOMAIN c d lg) cs)) = Some [])"
proof -
  let ?w = "update_cycle (init DOMAIN c d lg) cs"
  from assms have "attr_extra_state_attributes (self (init DOMAIN c d lg)) =
      Some (or_empty (fst (get_extra_state_attributes (init DOMAIN c d lg))))"
    by (simp add: init_def Let_def set_extra_established)
  then have main: "attr_extra_state_attributes (self ?w) =
      Some (or_empty (fst (get_extra_state_attributes ?w)))"
    by (rule update_cycle_established)
  then show ?thesis by (auto simp: or_empty_def)
qed

theorem extra_state_attributes_maintained_witness:
  "bool_dict (data_extra_state_attributes battery_description) \<and>
   attr_extra_state_attributes
     (self (update_cycle
        (init ''polestar_api'' ((battery_coordinator True)\<lparr>attrs := []\<rparr>) battery_description [])
        [])) = Some [] \<and>
   attr_extra_state_attributes
     (self (update_cycle
        (init ''polestar_api'' ((battery_coordinator True)\<lparr>attrs := []\<rparr>) battery_description [])
        [battery_coordinator True])) = Some [(''status'', PyStr ''idle''), (''range'', PyNone)]"
proof -
  let ?w0 = "init ''polestar_api'' ((battery_coordinator True)\<lparr>attrs := []\<rparr>) battery_description []"
  have cfg: "bool_dict (data_extra_state_attributes battery_description)"
    by (simp add: battery_description_fields bool_dict_def)
  have e0: "fst (get_extra_state_attributes (update_cycle ?w0 [])) = None"
    by (rule extra_unavailable [where d = battery_description and src = BATTERY])
       (simp_all add: init_description init_coordinator battery_description_fields
          getattr_coordinator_def)
  have e1: "fst (get_extra_state_attributes (update_cycle ?w0 [battery_coordinator True])) =
              Some [(''status'', PyStr ''idle''), (''range'', PyNone)]"
    by (rule battery_result_cong [where t = True])
       (simp_all add: handle_coordinator handle_description init_description)
  from extra_state_attributes_maintained [OF cfg, of "''polestar_api''"
         "(battery_coordinator True)\<lparr>attrs := []\<rparr>" "[]" "[]"]
  have a0: "attr_extra_state_attributes (self (update_cycle ?w0 [])) = Some []"
    by (simp only: e0 or_empty_def option.case)
  from extra_state_attributes_maintained [OF cfg, of "''polestar_api''"
         "(battery_coordinator True)\<lparr>attrs := []\<rparr>" "[]" "[battery_coordinator True]"]
  have a1: "attr_extra_state_attributes (self (update_cycle ?w0 [battery_coordinator True])) =
              Some [(''status'', PyStr ''idle''), (''range'', PyNone)]"
    by (simp only: e1 or_empty_def option.case) simp
  from cfg a0 a1 show ?thesis by (simp only: simp_thms)
qed

text \<open>
  With the mapping configured as the empty dict the claim fails: the guard in
  \<^verbatim>\<open>__init__\<close> is false, \<^verbatim>\<open>_attr_extra_state_attributes\<close> is not assigned at
  construction, and the update callback, which tests for the attribute, never assigns it
  either.
\<close>

theorem extra_state_attributes_empty_counterexample:
  "data_extra_state_attributes empty_extras_description = Some [] \<and>
   post_init empty_extras_description = Inr () \<and>
   attr_extra_state_attributes (self empty_extras_world) = None \<and>
   attr_extra_state_attributes
     (self (update_cycle empty_extras_world [battery_coordinator True])) = None \<and>
   attr_extra_state_attributes (self empty_extras_world) \<noteq>
     Some (or_empty (fst (get_extra_state_attributes empty_extras_world)))"
proof -
  have u: "attr_extra_state_attributes (self empty_extras_world) = None"
    unfolding empty_extras_world_def
    by (rule init_unset) (simp add: empty_extras_fields bool_dict_def)
  from u have "attr_extra_state_attributes
     (self (update_cycle empty_extras_world [battery_coordinator True])) = None"
    by (rule update_cycle_unset)
  with u show ?thesis
    by (simp add: empty_extras_fields empty_extras_post_init)
qed

text \<open>
  C7, as the code has it. With a description that has a data source and a non-empty
  mapping of extra
  attributes, when the coordinator's named sub-object is not \<^verbatim>\<open>None\<close>,
  \<^verbatim>\<open>get_extra_state_attributes\<close> returns a dict whose keys are the keys of the configured
  mapping, each key holding the value of the corresponding attribute of the sub-object,
  and \<^verbatim>\<open>None\<close> when the attribute is absent or its value is \<^verbatim>\<open>None\<close>. The mapping is a
  dict, so each of its keys occurs once.
\<close>

theorem get_extra_state_attributes_dict:
  assumes "entity_description (self w) = d"
    and "bool_source (data_source d)" and "data_source d = Some src"
    and "bool_dict (data_extra_state_attributes d)"
    and "data_extra_state_attributes d = Some m" and "distinct (map fst m)"
    and "getattr_coordinator (coordinator w) src = DataObj t fs"
  shows "\<exists>res. fst (get_extra_state_attributes w) = Some res \<and>
           set (map fst res) = set (map fst m) \<and>
           (\<forall>(k, a) \<in> set m.
              map_of res k = Some (getattr_data fs a) \<and>
              (\<not> hasattr_data fs a \<longrightarrow> map_of res k = Some PyNone))"
proof -
  let ?res = "fst (extra_loop (source_value src) (entity_id (self w)) fs m ([], logger w))"
  from assms have ne: "m \<noteq> []" by (simp add: bool_dict_def)
  have r: "fst (get_extra_state_attributes w) = Some ?res"
    using assms(1,3,5) ne assms(7) by (rule extra_proceeds)
  have k: "set (map fst ?res) = set (map fst m)"
    using extra_loop_keys [of "source_value src" "entity_id (self w)" fs m "[]" "logger w"]
    by simp
  have v: "map_of ?res k = Some (getattr_data fs a)" if "(k, a) \<in> set m" for k a
    using assms(6) that by (rule extra_loop_value)
  have "\<forall>(k, a) \<in> set m.
          map_of ?res k = Some (getattr_data fs a) \<and>
          (\<not> hasattr_data fs a \<longrightarrow> map_of ?res k = Some PyNone)"
    using v by (auto simp: getattr_data_absent)
  with r k show ?thesis by blast
qed

theorem get_extra_state_attributes_dict_witness:
  "entity_description (self (battery_world True)) = battery_description \<and>
   bool_source (data_source battery_description) \<and>
   bool_dict (data_extra_state_attributes battery_description) \<and>
   distinct (map fst [(''status'', ''charging_status''), (''range'', ''estimated_range'')]) \<and>
   getattr_coordinator (coordinator (battery_world True)) BATTERY = DataObj True battery_fields \<and>
   (\<exists>res. fst (get_extra_state_attributes (battery_world True)) = Some res \<and>
      set (map fst res) = {''status'', ''range''} \<and>
      map_of res ''status'' = Some (PyStr ''idle'') \<and>
      map_of res ''range'' = Some PyNone)"
  using get_extra_state_attributes_dict
    [of "battery_world True" battery_description BATTERY
        "[(''status'', ''charging_status''), (''range'', ''estimated_range'')]" True battery_fields]
  by (simp add: battery_world_description battery_world_coordinator battery_getattr
        battery_description_fields bool_source_Some bool_dict_def battery_world_extra)

text \<open>
  With the empty dict as the mapping the claim fails: the description is valid, the
  battery object is present, and the method returns \<^verbatim>\<open>None\<close>, not a dict with the
  (empty) key set of the mapping.
\<close>

theorem get_extra_state_attributes_empty_counterexample:
  "post_init empty_extras_description = Inr () \<and>
   entity_description (self empty_extras_world) = empty_extras_description \<and>
   bool_source (data_source empty_extras_description) \<and>
   data_source empty_extras_description = Some BATTERY \<and>
   data_extra_state_attributes empty_extras_description = Some [] \<and>
   getattr_coordinator (coordinator empty_extras_world) BATTERY = DataObj True battery_fields \<and>
   fst (get_extra_state_attributes empty_extras_world) = None \<and>
   fst (get_extra_state_attributes empty_extras_world) \<noteq> Some []"
  by (simp add: empty_extras_post_init empty_extras_world_description empty_extras_fields
        empty_extras_world_coordinator battery_getattr empty_extras_result bool_source_Some)

section \<open>The two availability tests\<close>

text \<open>
  C9. The two lookup methods test the coordinator's sub-object differently.
  \<^verbatim>\<open>get_native_value\<close> returns \<^verbatim>\<open>None\<close> whenever the sub-object is falsy, while
  \<^verbatim>\<open>get_extra_state_attributes\<close> runs its loop over any sub-object that is not \<^verbatim>\<open>None\<close>.
  For the battery object that is present but evaluates false, the former reports
  \<^verbatim>\<open>None\<close> and the latter still reads the charging status from it.
\<close>

theorem availability_tests_differ:
  "(entity_description (self w) = d \<and> bool_source (data_source d) \<and>
    bool_str (data_state_attribute d) \<and> data_source d = Some src \<and>
    (getattr_coordinator (coordinator w) src = DataNone \<or>
     getattr_coordinator (coordinator w) src = DataObj False fs) \<longrightarrow>
      fst (get_native_value w) = Inr PyNone) \<and>
   (entity_description (self w) = d \<and> bool_source (data_source d) \<and>
    bool_dict (data_extra_state_attributes d) \<and> data_source d = Some src \<and>
    data_extra_state_attributes d = Some m \<and>
    getattr_coordinator (coordinator w) src = DataObj t fs \<longrightarrow>
      fst (get_extra_state_attributes w) =
        Some (fst (extra_loop (source_value src) (entity_id (self w)) fs m ([], logger w)))) \<and>
   (getattr_coordinator (coordinator (battery_world False)) BATTERY = DataObj False battery_fields \<and>
    fst (get_native_value (battery_world False)) = Inr PyNone \<and>
    fst (get_extra_state_attributes (battery_world False)) =
      Some [(''status'', PyStr ''idle''), (''range'', PyNone)])"
proof (intro conjI impI)
  assume "entity_description (self w) = d \<and> bool_source (data_source d) \<and>
    bool_str (data_state_attribute d) \<and> data_source d = Some src \<and>
    (getattr_coordinator (coordinator w) src = DataNone \<or>
     getattr_coordinator (coordinator w) src = DataObj False fs)"
  then show "fst (get_native_value w) = Inr PyNone"
    by (auto simp: get_native_value_def Let_def dest: bool_strD)
next
  assume a: "entity_description (self w) = d \<and> bool_source (data_source d) \<and>
    bool_dict (data_extra_state_attributes d) \<and> data_source d = Some src \<and>
    data_extra_state_attributes d = Some m \<and>
    getattr_coordinator (coordinator w) src = DataObj t fs"
  then have "m \<noteq> []" by (auto simp: bool_dict_def)
  with a show "fst (get_extra_state_attributes w) =
        Some (fst (extra_loop (source_value src) (entity_id (self w)) fs m ([], logger w)))"
    by (intro extra_proceeds [where d = d and t = t]) simp_all
next
  show "getattr_coordinator (coordinator (battery_world False)) BATTERY =
          DataObj False battery_fields"
    by (simp add: battery_world_coordinator battery_getattr)
next
  show "fst (get_native_value (battery_world False)) = Inr PyNone"
    by (simp add: battery_world_native)
next
  show "fst (get_extra_state_attributes (battery_world False)) =
      Some [(''status'', PyStr ''idle''), (''range'', PyNone)]"
    by (rule battery_world_extra)
qed

theorem availability_tests_differ_witness:
  "entity_description (self (battery_world False)) = battery_description \<and>
   bool_source (data_source battery_description) \<and>
   bool_str (data_state_attribute battery_description) \<and>
   bool_dict (data_extra_state_attributes battery_description) \<and>
   data_source battery_description = Some BATTERY \<and>
   getattr_coordinator (coordinator (battery_world False)) BATTERY = DataObj False battery_fields \<and>
   fst (get_native_value (battery_world False)) = Inr PyNone \<and>
   fst (get_extra_state_attributes (battery_world False)) =
     Some (fst (extra_loop (source_value BATTERY) (entity_id (self (battery_world False)))
                  battery_fields
                  [(''status'', ''charging_status''), (''range'', ''estimated_range'')]
                  ([], logger (battery_world False))))"
  using availability_tests_differ
    [of "battery_world False" battery_description BATTERY battery_fields
        "[(''status'', ''charging_status''), (''range'', ''estimated_range'')]" False]
  by (simp add: battery_world_description battery_world_coordinator battery_getattr
        battery_description_fields bool_source_Some bool_str_def bool_dict_def
        del: extra_loop.simps)

section \<open>Identifiers\<close>

text \<open>
  C10. The identifier strings of an entity are determined by the coordinator and the
  key of the description, from construction on and through every update:
  \<^verbatim>\<open>_attr_unique_id\<close> is \<^verbatim>\<open>"polestar_" + vin + "_" + key\<close>, \<^verbatim>\<open>entity_id\<close> is
  \<^verbatim>\<open>DOMAIN + ".polestar_" + get_short_id() + "_" + key\<close> and \<^verbatim>\<open>_attr_translation_key\<close>
  is \<^verbatim>\<open>"polestar_" + key\<close>.
\<close>

theorem identifiers_determined:
  "attr_unique_id (self (update_cycle (init DOMAIN c d lg) cs)) =
     ''polestar_'' @ vin c @ ''_'' @ key d \<and>
   entity_id (self (update_cycle (init DOMAIN c d lg) cs)) =
     DOMAIN @ ''.polestar_'' @ get_short_id c @ ''_'' @ key d \<and>
   attr_translation_key (self (update_cycle (init DOMAIN c d lg) cs)) = ''polestar_'' @ key d"
  by (simp add: update_cycle_ids) (simp add: init_def Let_def set_extra_self)

end
